theory Spec2Isabelle
  imports Complex_Main "HOL-Library.Sublist"
begin

section \<open>Python strings\<close>

text \<open>
  A Python \<open>str\<close> is modelled as a \<open>string\<close>: a list of characters, each a code point
  below 256. \<open>str.lower()\<close> maps the upper-case letters of that range (A to Z, and the
  Latin-1 capitals 192 to 222 without the multiplication sign 215) to the letter 32
  code points further on and leaves every other character alone.
\<close>

definition lower_char :: "char \<Rightarrow> char" where
  "lower_char c = (let n = (of_char c :: nat) in
     if (65 \<le> n \<and> n \<le> 90) \<or> (192 \<le> n \<and> n \<le> 222 \<and> n \<noteq> 215)
     then char_of (n + 32) else c)"

definition lower :: "string \<Rightarrow> string" where
  "lower s = map lower_char s"

text \<open>\<open>sub in s\<close> on strings: \<open>sub\<close> starts at some position of \<open>s\<close>.\<close>

fun py_in :: "string \<Rightarrow> string \<Rightarrow> bool" where
  "py_in sub [] = (sub = [])"
| "py_in sub (c # cs) = (prefix sub (c # cs) \<or> py_in sub cs)"

text \<open>
  \<open>s.replace(old, new)\<close>: the occurrences of \<open>old\<close> are found from the left and do not
  overlap; with an empty \<open>old\<close>, \<open>new\<close> is put before every character and at the end.
\<close>

fun py_replace :: "string \<Rightarrow> string \<Rightarrow> string \<Rightarrow> string" where
  "py_replace old new [] = (if old = [] then new else [])"
| "py_replace old new (c # cs) =
     (if old = [] then new @ c # py_replace old new cs
      else if prefix old (c # cs) then new @ py_replace old new (drop (length old - 1) cs)
      else c # py_replace old new cs)"

section \<open>Configuration (config\_manager.py)\<close>

text \<open>
  The configuration is the dictionary read from \<open>activity_config.json\<close>. Its
  \<open>categories\<close> entry is a dictionary from a category name to a list of keywords; the
  code iterates over \<open>items()\<close>, which yields the entries in the order of the file, so
  it is an association list here. \<open>ignored_apps\<close> and \<open>categories\<close> are taken to be
  present, as in the default configuration; \<open>sampling_interval\<close> may be absent.
\<close>

record config =
  ignored_apps :: "string list"
  categories :: "(string \<times> string list) list"
  sampling_interval_entry :: "int option"

record config_manager =
  config_path :: string
  config :: config

definition DEFAULT_CONFIG :: config where
  "DEFAULT_CONFIG = \<lparr>
     ignored_apps = [''explorer.exe'', ''Finder'', ''SystemUI''],
     categories = [
       (''Coding'', [''vscode'', ''pycharm'', ''intellij'', ''sublime_text'', ''vim'', ''atom'', ''code'']),
       (''Communication'', [''outlook'', ''thunderbird'', ''slack'', ''teams'', ''discord'', ''zoom'']),
       (''Browsing'', [''chrome'', ''firefox'', ''safari'', ''edge'']),
       (''Documents'', [''word'', ''excel'', ''powerpoint'', ''acrobat'', ''pdf'']),
       (''Terminal'', [''terminal'', ''cmd'', ''powershell'', ''iterm2'', ''gnome-terminal'', ''konsole'']),
       (''Design'', [''photoshop'', ''illustrator'', ''figma'', ''sketch'', ''gimp'']),
       (''Media'', [''vlc'', ''spotify'', ''itunes'', ''windows media player'']),
       (''Other'', [])],
     sampling_interval_entry = Some 30 \<rparr>"

definition get_config :: "config_manager \<Rightarrow> config" where
  "get_config cm = config cm"

definition get_sampling_interval :: "config_manager \<Rightarrow> int" where
  "get_sampling_interval cm =
     (case sampling_interval_entry (config cm) of None \<Rightarrow> 30 | Some n \<Rightarrow> n)"

definition get_log_path :: "config_manager \<Rightarrow> string \<Rightarrow> string" where
  "get_log_path cm date_str = config_path cm @ ''/activity_'' @ date_str @ ''.json''"

section \<open>Window observations and classification (activity\_tracker.py)\<close>

text \<open>
  \<open>WindowTracker.get_active_window_info()\<close> returns \<open>None\<close> or a dictionary with the
  keys \<open>app\<close>, \<open>title\<close> and \<open>pid\<close>.
\<close>

record window_info =
  w_app :: string
  w_title :: string
  w_pid :: "int option"

text \<open>The loop over \<open>config['categories'].items()\<close>, returning at the first match.\<close>

fun match_categories :: "(string \<times> string list) list \<Rightarrow> string \<Rightarrow> string option" where
  "match_categories [] app_name = None"
| "match_categories ((category, apps) # rest) app_name =
     (if list_ex (\<lambda>app. py_in (lower app) app_name) apps then Some category
      else match_categories rest app_name)"

definition categorize_activity :: "config_manager \<Rightarrow> window_info option \<Rightarrow> string" where
  "categorize_activity cm window_info =
     (case window_info of
        None \<Rightarrow> ''Idle''
      | Some wi \<Rightarrow>
          (let cfg = get_config cm;
               app_name = lower (w_app wi);
               title = lower (w_title wi)
           in if List.member (map lower (ignored_apps cfg)) app_name then ''System''
              else (case match_categories (categories cfg) app_name of
                 Some category \<Rightarrow> category
               | None \<Rightarrow>
                   if py_in ''email'' title \<or> py_in ''mail'' title then ''Communication''
                   else if py_in ''document'' title \<or> py_in ''.doc'' title \<or> py_in ''.txt'' title
                     then ''Documents''
                   else if py_in ''code'' title \<or> py_in ''script'' title \<or>
                       list_ex (\<lambda>ext. py_in ext title)
                         [''.py'', ''.js'', ''.html'', ''.css'', ''.java'', ''.go'', ''.c'', ''.cpp'']
                     then ''Coding''
                   else ''Other'')))"

subsection \<open>The classifier as the specification words it\<close>

text \<open>
  The contract of the classifier, written with the library's notions: \<open>sublist k s\<close>
  says that \<open>s = ps @ k @ ss\<close> for some \<open>ps\<close> and \<open>ss\<close>, and \<open>find\<close> returns the first
  element of a list that satisfies a predicate.
\<close>

definition source_file_extensions :: "string list" where
  "source_file_extensions = [''.py'', ''.js'', ''.html'', ''.css'', ''.java'', ''.go'', ''.c'', ''.cpp'']"

definition title_heuristic :: "string \<Rightarrow> string" where
  "title_heuristic title =
     (if sublist ''mail'' title then ''Communication''
      else if sublist ''document'' title \<or> sublist ''.doc'' title \<or> sublist ''.txt'' title
        then ''Documents''
      else if sublist ''code'' title \<or> sublist ''script'' title \<or>
          (\<exists>ext \<in> set source_file_extensions. sublist ext title)
        then ''Coding''
      else ''Other'')"

definition classify :: "window_info option \<Rightarrow> config \<Rightarrow> string" where
  "classify observation cfg =
     (case observation of
        None \<Rightarrow> ''Idle''
      | Some obs \<Rightarrow>
          if \<exists>x \<in> set (ignored_apps cfg). lower x = lower (w_app obs) then ''System''
          else (case find (\<lambda>(name, keywords).
                        \<exists>k \<in> set keywords. sublist (lower k) (lower (w_app obs)))
                      (categories cfg) of
             Some (name, keywords) \<Rightarrow> name
           | None \<Rightarrow> title_heuristic (lower (w_title obs))))"

section \<open>The day's timeline and its JSON text\<close>

text \<open>
  An activity is the dictionary \<open>log_current_activity\<close> builds: the keys \<open>timestamp\<close>,
  \<open>app\<close>, \<open>title\<close>, \<open>category\<close> and \<open>duration\<close>, in this order, and \<open>is_typing\<close>
  last when the dictionary has it (\<open>None\<close>: the key is absent). The duration is a
  Python integer (the sampling interval is an integer number of seconds).
\<close>

record activity =
  a_timestamp :: string
  a_app :: string
  a_title :: string
  a_category :: string
  a_duration :: int
  a_is_typing :: "bool option"

subsection \<open>json.dump(activities, f, indent=4)\<close>

text \<open>
  The encoder writes ASCII: a quotation mark, a backslash and the characters outside
  the range from the space to the tilde are escaped, with the short escapes for
  backspace, form feed, newline, carriage return and tab and \<open>\u00xx\<close> (lower-case
  hexadecimal) for the others.
\<close>

definition hex_digit :: "nat \<Rightarrow> char" where
  "hex_digit d = ''0123456789abcdef'' ! d"

definition escape_char :: "char \<Rightarrow> string" where
  "escape_char c =
     (if c = CHR 0x22 then [CHR 0x5C, CHR 0x22]
      else if c = CHR 0x5C then [CHR 0x5C, CHR 0x5C]
      else if c = CHR 0x0A then [CHR 0x5C, CHR ''n'']
      else if c = CHR 0x0D then [CHR 0x5C, CHR ''r'']
      else if c = CHR 0x09 then [CHR 0x5C, CHR ''t'']
      else if c = CHR 0x08 then [CHR 0x5C, CHR ''b'']
      else if c = CHR 0x0C then [CHR 0x5C, CHR ''f'']
      else if (of_char c :: nat) < 32 \<or> 126 < (of_char c :: nat)
        then [CHR 0x5C, CHR ''u'', CHR ''0'', CHR ''0'',
              hex_digit ((of_char c :: nat) div 16), hex_digit ((of_char c :: nat) mod 16)]
      else [c])"

definition json_string :: "string \<Rightarrow> string" where
  "json_string s = CHR 0x22 # concat (map escape_char s) @ [CHR 0x22]"

fun show_nat :: "nat \<Rightarrow> string" where
  "show_nat n =
     (if n < 10 then [char_of (48 + n)] else show_nat (n div 10) @ [char_of (48 + n mod 10)])"

declare show_nat.simps [simp del]

definition show_int :: "int \<Rightarrow> string" where
  "show_int i = (if i < 0 then CHR ''-'' # show_nat (nat (- i)) else show_nat (nat i))"

text \<open>The values a key of an activity holds.\<close>

datatype jscalar = JStr string | JInt int | JBool bool

fun json_scalar :: "jscalar \<Rightarrow> string" where
  "json_scalar (JStr s) = json_string s"
| "json_scalar (JInt i) = show_int i"
| "json_scalar (JBool b) = (if b then ''true'' else ''false'')"

definition items :: "activity \<Rightarrow> (string \<times> jscalar) list" where
  "items a =
     [(''timestamp'', JStr (a_timestamp a)), (''app'', JStr (a_app a)),
      (''title'', JStr (a_title a)), (''category'', JStr (a_category a)),
      (''duration'', JInt (a_duration a))]
     @ (case a_is_typing a of None \<Rightarrow> [] | Some b \<Rightarrow> [(''is_typing'', JBool b)])"

fun join :: "'a list \<Rightarrow> 'a list list \<Rightarrow> 'a list" where
  "join sep [] = []"
| "join sep [x] = x"
| "join sep (x # y # ys) = x @ sep @ join sep (y # ys)"

definition newline :: string where
  "newline = [CHR 0x0A]"

definition json_member :: "string \<times> jscalar \<Rightarrow> string" where
  "json_member kv = ''        '' @ json_string (fst kv) @ '': '' @ json_scalar (snd kv)"

definition json_activity :: "activity \<Rightarrow> string" where
  "json_activity a =
     ''    {'' @ newline @ join ('','' @ newline) (map json_member (items a))
       @ newline @ ''    }''"

definition json_dumps :: "activity list \<Rightarrow> string" where
  "json_dumps acts =
     (if acts = [] then ''[]''
      else ''['' @ newline @ join ('','' @ newline) (map json_activity acts) @ newline @ '']'')"

subsection \<open>json.load(f)\<close>

text \<open>
  The decoder reads JSON text: tokens separated by any number of spaces, tabs, newlines
  and carriage returns. The model follows it on the texts that hold a timeline, a JSON
  array of activity objects with their keys in the order above. An integer has no
  leading zero and no fraction or exponent; inside a string a control character is
  refused, and an escape is one of the short escapes or \<open>\u\<close> with four hexadecimal
  digits (here: of a code point below 256).
\<close>

datatype token =
    LBracket | RBracket | LBrace | RBrace | Comma | Colon
  | TString string | TInt int | TTrue | TFalse

definition is_ws :: "char \<Rightarrow> bool" where
  "is_ws c = (c = CHR 0x20 \<or> c = CHR 0x09 \<or> c = CHR 0x0A \<or> c = CHR 0x0D)"

definition is_digit :: "char \<Rightarrow> bool" where
  "is_digit c = (48 \<le> (of_char c :: nat) \<and> (of_char c :: nat) \<le> 57)"

definition digits_val :: "string \<Rightarrow> nat" where
  "digits_val ds = foldl (\<lambda>acc c. 10 * acc + ((of_char c :: nat) - 48)) 0 ds"

definition hex_val :: "char \<Rightarrow> nat option" where
  "hex_val c =
     (let n = (of_char c :: nat)
      in if 48 \<le> n \<and> n \<le> 57 then Some (n - 48)
         else if 97 \<le> n \<and> n \<le> 102 then Some (n - 87)
         else if 65 \<le> n \<and> n \<le> 70 then Some (n - 55)
         else None)"

definition hex4 :: "string \<Rightarrow> nat option" where
  "hex4 hs =
     (if length hs = 4 \<and> list_all (\<lambda>h. hex_val h \<noteq> None) hs
      then Some (foldl (\<lambda>acc h. 16 * acc + (case hex_val h of None \<Rightarrow> 0 | Some d \<Rightarrow> d)) 0 hs)
      else None)"

definition unescape :: "char \<Rightarrow> char option" where
  "unescape e =
     (if e = CHR 0x22 then Some (CHR 0x22)
      else if e = CHR 0x5C then Some (CHR 0x5C)
      else if e = CHR ''/'' then Some (CHR ''/'')
      else if e = CHR ''b'' then Some (CHR 0x08)
      else if e = CHR ''f'' then Some (CHR 0x0C)
      else if e = CHR ''n'' then Some (CHR 0x0A)
      else if e = CHR ''r'' then Some (CHR 0x0D)
      else if e = CHR ''t'' then Some (CHR 0x09)
      else None)"

text \<open>
  The tokens of a text; \<open>scan_string acc cs\<close> is inside a string, of which \<open>acc\<close> holds
  the characters read so far, last first.
\<close>

function scan :: "string \<Rightarrow> token list option"
  and scan_string :: "string \<Rightarrow> string \<Rightarrow> token list option" where
  "scan [] = Some []"
| "scan (c # cs) =
     (if is_ws c then scan cs
      else if c = CHR ''['' then map_option (Cons LBracket) (scan cs)
      else if c = CHR '']'' then map_option (Cons RBracket) (scan cs)
      else if c = CHR ''{'' then map_option (Cons LBrace) (scan cs)
      else if c = CHR ''}'' then map_option (Cons RBrace) (scan cs)
      else if c = CHR '','' then map_option (Cons Comma) (scan cs)
      else if c = CHR '':'' then map_option (Cons Colon) (scan cs)
      else if c = CHR 0x22 then scan_string [] cs
      else if prefix ''true'' (c # cs) then map_option (Cons TTrue) (scan (drop 3 cs))
      else if prefix ''false'' (c # cs) then map_option (Cons TFalse) (scan (drop 4 cs))
      else if c = CHR ''-'' \<or> is_digit c then
        (let ds = (if c = CHR ''-'' then takeWhile is_digit cs else c # takeWhile is_digit cs);
             n = int (digits_val ds)
         in if ds = [] \<or> (1 < length ds \<and> hd ds = CHR ''0'') then None
            else map_option (Cons (TInt (if c = CHR ''-'' then - n else n)))
                   (scan (dropWhile is_digit cs)))
      else None)"
| "scan_string acc [] = None"
| "scan_string acc (c # cs) =
     (if c = CHR 0x22 then map_option (Cons (TString (rev acc))) (scan cs)
      else if c = CHR 0x5C then
        (case cs of
           [] \<Rightarrow> None
         | e # es \<Rightarrow>
             if e = CHR ''u'' then
               (case hex4 (take 4 es) of
                  None \<Rightarrow> None
                | Some n \<Rightarrow> if n < 256 then scan_string (char_of n # acc) (drop 4 es) else None)
             else (case unescape e of
                     None \<Rightarrow> None
                   | Some ch \<Rightarrow> scan_string (ch # acc) es))
      else if (of_char c :: nat) < 32 then None
      else scan_string (c # acc) cs)"
  by pat_completeness auto
termination
  by (relation "measure (\<lambda>x. case x of Inl cs \<Rightarrow> length cs | Inr (acc, cs) \<Rightarrow> length cs)")
     (auto simp: length_dropWhile_le less_Suc_eq_le)

definition scalar_of_token :: "token \<Rightarrow> jscalar option" where
  "scalar_of_token t =
     (case t of TString s \<Rightarrow> Some (JStr s) | TInt i \<Rightarrow> Some (JInt i)
      | TTrue \<Rightarrow> Some (JBool True) | TFalse \<Rightarrow> Some (JBool False) | _ \<Rightarrow> None)"

text \<open>
  The activity a decoded object is: the one whose dictionary has exactly the
  members of the object, in their order.
\<close>

definition str_at :: "(string \<times> jscalar) list \<Rightarrow> nat \<Rightarrow> string" where
  "str_at ms i = (if i < length ms then (case snd (ms ! i) of JStr s \<Rightarrow> s | _ \<Rightarrow> []) else [])"

definition int_at :: "(string \<times> jscalar) list \<Rightarrow> nat \<Rightarrow> int" where
  "int_at ms i = (if i < length ms then (case snd (ms ! i) of JInt n \<Rightarrow> n | _ \<Rightarrow> 0) else 0)"

definition bool_at :: "(string \<times> jscalar) list \<Rightarrow> nat \<Rightarrow> bool option" where
  "bool_at ms i =
     (if i < length ms then (case snd (ms ! i) of JBool b \<Rightarrow> Some b | _ \<Rightarrow> None) else None)"

definition activity_of_items :: "(string \<times> jscalar) list \<Rightarrow> activity option" where
  "activity_of_items ms =
     (let a = \<lparr>a_timestamp = str_at ms 0, a_app = str_at ms 1, a_title = str_at ms 2,
                a_category = str_at ms 3, a_duration = int_at ms 4,
                a_is_typing = bool_at ms 5\<rparr>
      in if items a = ms then Some a else None)"

text \<open>
  \<open>parse_members acts ms ts\<close> is inside an object of the array, before a member:
  \<open>acts\<close> are the activities of the objects read so far and \<open>ms\<close> the members of this
  object read so far.
\<close>

fun parse_members ::
  "activity list \<Rightarrow> (string \<times> jscalar) list \<Rightarrow> token list \<Rightarrow> activity list option" where
  "parse_members acts ms (TString k # Colon # v # sep # rest) =
     (case scalar_of_token v of
        None \<Rightarrow> None
      | Some x \<Rightarrow>
          if sep = Comma then parse_members acts (ms @ [(k, x)]) rest
          else if sep = RBrace then
            (case activity_of_items (ms @ [(k, x)]) of
               None \<Rightarrow> None
             | Some a \<Rightarrow>
                 (case rest of
                    [RBracket] \<Rightarrow> Some (acts @ [a])
                  | Comma # LBrace # rest' \<Rightarrow> parse_members (acts @ [a]) [] rest'
                  | _ \<Rightarrow> None))
          else None)"
| "parse_members acts ms ts = None"

definition parse_timeline :: "token list \<Rightarrow> activity list option" where
  "parse_timeline ts =
     (case ts of
        [LBracket, RBracket] \<Rightarrow> Some []
      | LBracket # LBrace # rest \<Rightarrow> parse_members [] [] rest
      | _ \<Rightarrow> None)"

definition json_loads :: "string \<Rightarrow> activity list option" where
  "json_loads text = (case scan text of None \<Rightarrow> None | Some ts \<Rightarrow> parse_timeline ts)"

text \<open>
  A text whose first character after the white space cannot start a JSON value (or
  that has none) makes the decoder raise \<open>JSONDecodeError\<close>: "Expecting value".
\<close>

definition expecting_value :: "string \<Rightarrow> bool" where
  "expecting_value text =
     (case dropWhile is_ws text of
        [] \<Rightarrow> True
      | c # cs \<Rightarrow> \<not> List.member (CHR 0x22 # ''{[-0123456789tfnNI'') c)"

text \<open>
  What \<open>json.load\<close> does with the text of a file: it returns the timeline the text
  holds, or raises \<open>JSONDecodeError\<close>. \<open>Unmodelled\<close> stands for the texts this model
  does not follow: they are not a timeline of activities, and are malformed further
  in or hold other JSON.
\<close>

datatype error = JSONDecodeError | Unmodelled

definition json_load :: "string \<Rightarrow> error + activity list" where
  "json_load text =
     (if expecting_value text then Inl JSONDecodeError
      else (case json_loads text of
              Some acts \<Rightarrow> Inr acts
            | None \<Rightarrow> Inl Unmodelled))"

subsection \<open>The tokens of a dumped timeline\<close>





section \<open>The tracker (activity\_tracker.py)\<close>

text \<open>The lines the code prints, without the formatting of their numbers.\<close>

datatype message =
    UserStartedTyping
  | NoLongerIdleKeyboard
  | KeyboardMonitoringStarted
  | KeyboardMonitoringFailed
  | UserStoppedTyping real
  | LoggingIdle
  | CurrentWindowInfo "window_info option"
  | NoWindowInfo
  | ActiveWindowDetected string string bool
  | UserNowIdle real
  | MouseMovement string string
  | NoLongerIdleMouse
  | ErrorMousePosition
  | WindowChanged
  | NoLongerIdleWindow
  | ErrorWindowInfo
  | ErrorDuringTracking

text \<open>
  The attributes of an \<open>ActivityTracker\<close>, with three parts of its surroundings:
  \<open>current_mouse\<close>, the local variable of \<open>start_tracking\<close> that lives across the
  iterations of its loop (\<open>None\<close>: still unbound); \<open>stdout\<close>, what the process has
  printed; and \<open>files\<close>, the text of every file that exists. A reading of the clock
  (\<open>time.time()\<close>) is a real number. \<open>keyboard_listener\<close> says whether the attribute
  holds a listener. \<open>current_activity\<close> is the dictionary the attribute refers to: the
  code only ever binds it to the last element of \<open>activities\<close>, and rebinds it after
  each change of that element, so that the two never differ.
\<close>

record tracker =
  config_manager :: config_manager
  today_date :: string
  activities :: "activity list"
  current_activity :: "activity option"
  sampling_interval :: int
  last_mouse_pos :: "string option"
  last_window_title :: "string option"
  is_typing :: bool
  last_keypress_time :: real
  keyboard_listener :: bool
  typing_inactivity_threshold :: real
  last_activity_time :: real
  idle_threshold :: real
  is_idle :: bool
  current_mouse :: "string option"
  stdout :: "message list"
  files :: "string \<rightharpoonup> string"

definition print :: "message \<Rightarrow> tracker \<Rightarrow> tracker" where
  "print m s = s\<lparr>stdout := stdout s @ [m]\<rparr>"

text \<open>\<open>_on_key_press\<close>; \<open>t1\<close> and \<open>t2\<close> are its two readings of the clock.\<close>

definition on_key_press :: "real \<Rightarrow> real \<Rightarrow> tracker \<Rightarrow> tracker" where
  "on_key_press t1 t2 s =
     (let s1 = s\<lparr>last_keypress_time := t1\<rparr>;
          s2 = s1\<lparr>last_activity_time := t2\<rparr>;
          s3 = (if \<not> is_typing s2 then print UserStartedTyping (s2\<lparr>is_typing := True\<rparr>) else s2)
      in if is_idle s3 then print NoLongerIdleKeyboard (s3\<lparr>is_idle := False\<rparr>) else s3)"

text \<open>\<open>_start_keyboard_monitoring\<close>; \<open>started\<close> says whether the listener could be started.\<close>

definition start_keyboard_monitoring :: "bool \<Rightarrow> tracker \<Rightarrow> tracker" where
  "start_keyboard_monitoring started s =
     (if started then print KeyboardMonitoringStarted (s\<lparr>keyboard_listener := True\<rparr>)
      else print KeyboardMonitoringFailed (s\<lparr>keyboard_listener := False\<rparr>))"

definition check_typing_status :: "real \<Rightarrow> tracker \<Rightarrow> bool \<times> tracker" where
  "check_typing_status current_time s =
     (if \<not> keyboard_listener s then (False, s)
      else
        (let elapsed = current_time - last_keypress_time s;
             s1 = (if is_typing s \<and> elapsed > typing_inactivity_threshold s
                   then print (UserStoppedTyping elapsed) (s\<lparr>is_typing := False\<rparr>) else s)
         in (is_typing s1, s1)))"

definition save_activities :: "tracker \<Rightarrow> tracker" where
  "save_activities s =
     (let today_log = get_log_path (config_manager s) (today_date s)
      in s\<lparr>files := (files s)(today_log \<mapsto> json_dumps (activities s))\<rparr>)"

definition idle_activity :: "string \<Rightarrow> int \<Rightarrow> activity" where
  "idle_activity timestamp interval =
     \<lparr>a_timestamp = timestamp, a_app = ''Idle'', a_title = ''User inactive'',
      a_category = ''Idle'', a_duration = interval, a_is_typing = None\<rparr>"

text \<open>
  The first part of \<open>log_current_activity\<close> (to the end of the \<open>if self.is_idle\<close>
  statement): the dictionary \<open>activity\<close> of this tick. \<open>timestamp\<close> is
  \<open>datetime.now().isoformat()\<close>, \<open>window_info\<close> what the window probe returns when it
  is asked, \<open>current_time\<close> the reading of the clock in \<open>_check_typing_status\<close>.
\<close>

definition observe_activity ::
  "string \<Rightarrow> window_info option \<Rightarrow> real \<Rightarrow> tracker \<Rightarrow> activity \<times> tracker" where
  "observe_activity timestamp window_info current_time s =
     (if is_idle s then (idle_activity timestamp (sampling_interval s), print LoggingIdle s)
      else
        (let s1 = print (CurrentWindowInfo window_info) s
         in case window_info of
              None \<Rightarrow> (idle_activity timestamp (sampling_interval s1), print NoWindowInfo s1)
            | Some wi \<Rightarrow>
                (let category = categorize_activity (config_manager s1) (Some wi);
                     (typing, s2) = check_typing_status current_time s1;
                     title_suffix = (if typing then '' (typing)'' else '''');
                     s3 = print (ActiveWindowDetected (w_app wi) (w_title wi) typing) s2
                 in (\<lparr>a_timestamp = timestamp, a_app = w_app wi,
                      a_title = w_title wi @ title_suffix, a_category = category,
                      a_duration = sampling_interval s3, a_is_typing = Some typing\<rparr>, s3))))"

definition is_same_activity :: "activity \<Rightarrow> activity \<Rightarrow> bool" where
  "is_same_activity current activity =
     (a_app current = a_app activity \<and>
      py_replace '' (typing)'' '''' (a_title current)
        = py_replace '' (typing)'' '''' (a_title activity))"

text \<open>
  \<open>log_current_activity\<close>. In the branch of the same activity the last element of
  \<open>activities\<close> is updated in place and the function returns; otherwise the activity
  is appended and the timeline saved.
\<close>

definition log_current_activity ::
  "string \<Rightarrow> window_info option \<Rightarrow> real \<Rightarrow> tracker \<Rightarrow> tracker" where
  "log_current_activity timestamp window_info current_time s =
     (let (activity, s1) = observe_activity timestamp window_info current_time s;
          appended = save_activities
            (s1\<lparr>activities := activities s1 @ [activity], current_activity := Some activity\<rparr>)
      in case current_activity s1 of
           None \<Rightarrow> appended
         | Some current \<Rightarrow>
             if \<not> is_idle s1 \<and> activities s1 \<noteq> [] \<and> is_same_activity current activity
             then
               (let l = last (activities s1);
                    l1 = l\<lparr>a_duration := a_duration l + sampling_interval s1\<rparr>;
                    l2 = (case a_is_typing activity of
                            None \<Rightarrow> l1
                          | Some b \<Rightarrow> l1\<lparr>a_is_typing := Some b, a_title := a_title activity\<rparr>)
                in s1\<lparr>activities := (activities s1)[length (activities s1) - 1 := l2],
                       current_activity := Some l2\<rparr>)
             else appended)"

definition check_idle_status :: "real \<Rightarrow> tracker \<Rightarrow> bool \<times> tracker" where
  "check_idle_status current_time s =
     (let idle_duration = current_time - last_activity_time s
      in if idle_duration \<ge> idle_threshold s
         then (True, if \<not> is_idle s
                     then print (UserNowIdle idle_duration) (s\<lparr>is_idle := True\<rparr>) else s)
         else (False, s))"

subsection \<open>Construction\<close>

text \<open>
  \<open>_load_today_activities\<close>: the file of the day is read when it exists; what
  \<open>json.load\<close> raises is not caught.
\<close>

definition load_today_activities :: "tracker \<Rightarrow> error + tracker" where
  "load_today_activities s =
     (let today_log = get_log_path (config_manager s) (today_date s)
      in case files s today_log of
           None \<Rightarrow> Inr s
         | Some text \<Rightarrow>
             (case json_load text of
                Inl e \<Rightarrow> Inl e
              | Inr acts \<Rightarrow> Inr (s\<lparr>activities := acts\<rparr>)))"

text \<open>
  \<open>__init__\<close>, given the configuration manager it has built, the date of today, its
  two readings of the clock, whether the keyboard listener starts, and the files. The
  attributes are set in the order of the code, those after the load being set here
  before it (the load reads none of them).
\<close>

definition init ::
  "config_manager \<Rightarrow> string \<Rightarrow> real \<Rightarrow> real \<Rightarrow> bool \<Rightarrow> (string \<rightharpoonup> string)
     \<Rightarrow> error + tracker" where
  "init cm date t1 t2 started fs =
     (let s0 = \<lparr>config_manager = cm, today_date = date, activities = [],
                 current_activity = None, sampling_interval = get_sampling_interval cm,
                 last_mouse_pos = None, last_window_title = None, is_typing = False,
                 last_keypress_time = t1, keyboard_listener = False,
                 typing_inactivity_threshold = 2, last_activity_time = t2,
                 idle_threshold = 30, is_idle = False, current_mouse = None,
                 stdout = [], files = fs\<rparr>
      in case load_today_activities s0 of
           Inl e \<Rightarrow> Inl e
         | Inr s1 \<Rightarrow> Inr (start_keyboard_monitoring started s1))"

subsection \<open>One iteration of the loop of start\_tracking\<close>

text \<open>
  What one iteration reads from outside: the output of \<open>xdotool getmouselocation\<close> and
  of \<open>xdotool getwindowname\<close> (\<open>None\<close>: the call raised), the readings of the clock,
  the timestamp and the result of the window probe.
\<close>

record tick =
  mouse_info :: "string option"
  mouse_time :: real
  window_name :: "string option"
  window_time :: real
  idle_check_time :: real
  log_timestamp :: string
  active_window :: "window_info option"
  typing_check_time :: real

definition poll_mouse :: "string option \<Rightarrow> real \<Rightarrow> tracker \<Rightarrow> tracker" where
  "poll_mouse info now s =
     (case info of
        None \<Rightarrow> print ErrorMousePosition s
      | Some cur \<Rightarrow>
          (let s1 = s\<lparr>current_mouse := Some cur\<rparr>
           in case last_mouse_pos s1 of
                None \<Rightarrow> s1\<lparr>last_mouse_pos := Some cur\<rparr>
              | Some old \<Rightarrow>
                  if cur \<noteq> old
                  then (let s2 = print (MouseMovement cur old) s1;
                            s3 = s2\<lparr>last_activity_time := now\<rparr>
                        in if is_idle s3 then print NoLongerIdleMouse (s3\<lparr>is_idle := False\<rparr>)
                           else s3)
                  else s1))"

definition poll_window :: "string option \<Rightarrow> real \<Rightarrow> tracker \<Rightarrow> tracker" where
  "poll_window name now s =
     (case name of
        None \<Rightarrow> print ErrorWindowInfo s
      | Some window_title \<Rightarrow>
          (case last_window_title s of
             None \<Rightarrow> s\<lparr>last_window_title := Some window_title\<rparr>
           | Some old \<Rightarrow>
               if window_title \<noteq> old
               then (let s1 = print WindowChanged s;
                         s2 = s1\<lparr>last_activity_time := now\<rparr>;
                         s3 = s2\<lparr>last_window_title := Some window_title\<rparr>
                     in if is_idle s3 then print NoLongerIdleWindow (s3\<lparr>is_idle := False\<rparr>)
                        else s3)
               else s))"

text \<open>
  The body of the loop. When \<open>current_mouse\<close> is still unbound at
  \<open>self._last_mouse_pos = current_mouse\<close>, the statement raises, the handler of the
  loop prints the error, and this iteration neither checks for idleness nor logs.
\<close>

definition tracking_iteration :: "tick \<Rightarrow> tracker \<Rightarrow> tracker" where
  "tracking_iteration tk s =
     (let s1 = poll_mouse (mouse_info tk) (mouse_time tk) s;
          s2 = poll_window (window_name tk) (window_time tk) s1
      in case current_mouse s2 of
           None \<Rightarrow> print ErrorDuringTracking s2
         | Some cur \<Rightarrow>
             (let s3 = s2\<lparr>last_mouse_pos := Some cur\<rparr>;
                  s4 = snd (check_idle_status (idle_check_time tk) s3)
              in log_current_activity (log_timestamp tk) (active_window tk)
                   (typing_check_time tk) s4))"

text \<open>
  A run of the tracker: the iterations of the loop, and between them the key presses
  the listener delivers.
\<close>

datatype event = KeyPress real real | Iteration tick

fun step :: "event \<Rightarrow> tracker \<Rightarrow> tracker" where
  "step (KeyPress t1 t2) s = on_key_press t1 t2 s"
| "step (Iteration tk) s = tracking_iteration tk s"

fun run :: "event list \<Rightarrow> tracker \<Rightarrow> tracker" where
  "run [] s = s"
| "run (e # es) s = run es (step e s)"

subsection \<open>Names for parts of a tick\<close>

text \<open>
  \<open>merges\<close> is the condition under which \<open>log_current_activity\<close> updates the last
  record and returns: the tracker is not idle, the timeline is not empty, and the
  current activity has the application and, up to the typing marker, the title of the
  activity of this tick.
\<close>

definition merges :: "string \<Rightarrow> window_info option \<Rightarrow> real \<Rightarrow> tracker \<Rightarrow> bool" where
  "merges ts wi now s =
     (\<not> is_idle s \<and> activities s \<noteq> [] \<and>
      (case current_activity s of
         None \<Rightarrow> False
       | Some current \<Rightarrow> is_same_activity current (fst (observe_activity ts wi now s))))"

text \<open>
  The state in which an iteration reaches the idle check, and the one in which it
  calls \<open>log_current_activity\<close>, if it does.
\<close>

definition before_idle_check :: "tick \<Rightarrow> tracker \<Rightarrow> tracker option" where
  "before_idle_check tk s =
     (let s2 = poll_window (window_name tk) (window_time tk)
                 (poll_mouse (mouse_info tk) (mouse_time tk) s)
      in case current_mouse s2 of
           None \<Rightarrow> None
         | Some cur \<Rightarrow> Some (s2\<lparr>last_mouse_pos := Some cur\<rparr>))"

definition before_log :: "tick \<Rightarrow> tracker \<Rightarrow> tracker option" where
  "before_log tk s =
     map_option (\<lambda>s3. snd (check_idle_status (idle_check_time tk) s3)) (before_idle_check tk s)"

text \<open>
  A run of ticks that see one window: every iteration of the run logs, while the
  tracker is not idle, a window with the application \<open>a\<close> and the title \<open>t\<close>.
  \<open>ticks\<close> counts the iterations of a run. \<open>continues a t s\<close> says that in \<open>s\<close> the
  current activity already has this application and, up to the typing marker, this
  title, so that such a tick would extend its record.
\<close>

definition logs_window :: "string \<Rightarrow> string \<Rightarrow> tick \<Rightarrow> tracker \<Rightarrow> bool" where
  "logs_window a t tk s =
     (case before_log tk s of
        None \<Rightarrow> False
      | Some s4 \<Rightarrow>
          \<not> is_idle s4 \<and>
          (case active_window tk of None \<Rightarrow> False | Some w \<Rightarrow> w_app w = a \<and> w_title w = t))"




subsection \<open>Example runs\<close>

text \<open>
  A tracker started on 2024-01-01 with the default configuration, a working keyboard
  listener and no file of the day, at time 0; a sampling interval of 30 seconds.
\<close>

definition example_config_manager :: config_manager where
  "example_config_manager =
     \<lparr>config_path = ''/home/user/.activity_tracker'', config = DEFAULT_CONFIG\<rparr>"

definition start_state :: tracker where
  "start_state =
     \<lparr>config_manager = example_config_manager, today_date = ''2024-01-01'',
      activities = [], current_activity = None, sampling_interval = 30,
      last_mouse_pos = None, last_window_title = None, is_typing = False,
      last_keypress_time = 0, keyboard_listener = True,
      typing_inactivity_threshold = 2, last_activity_time = 0,
      idle_threshold = 30, is_idle = False, current_mouse = None,
      stdout = [KeyboardMonitoringStarted], files = Map.empty\<rparr>"

definition editor_tick :: "string \<Rightarrow> real \<Rightarrow> tick" where
  "editor_tick ts now =
     \<lparr>mouse_info = Some ''x:10 y:20 screen:0 window:1'', mouse_time = now,
      window_name = Some ''file.py'', window_time = now, idle_check_time = now,
      log_timestamp = ts,
      active_window = Some \<lparr>w_app = ''Editor'', w_title = ''file.py'', w_pid = Some 4242\<rparr>,
      typing_check_time = now\<rparr>"

text \<open>
  Scenario A: three ticks that see the editor on file.py, with key presses that keep
  the tracker active (the last one a second before the third tick).
\<close>

definition scenario_a :: "event list" where
  "scenario_a =
     [Iteration (editor_tick ''2024-01-01T09:00:10'' 10), KeyPress 35 35,
      Iteration (editor_tick ''2024-01-01T09:00:40'' 40), KeyPress 69 69,
      Iteration (editor_tick ''2024-01-01T09:01:10'' 70)]"

text \<open>
  Scenario B: a tick that sees the editor on a.py, then a tick, after a movement of
  the pointer, for which the window probe returns nothing.
\<close>

definition scenario_b :: "event list" where
  "scenario_b =
     [Iteration
        \<lparr>mouse_info = Some ''x:10 y:20 screen:0 window:1'', mouse_time = 10,
         window_name = Some ''a.py'', window_time = 10, idle_check_time = 10,
         log_timestamp = ''2024-01-01T09:00:10'',
         active_window = Some \<lparr>w_app = ''Editor'', w_title = ''a.py'', w_pid = Some 4242\<rparr>,
         typing_check_time = 10\<rparr>,
      Iteration
        \<lparr>mouse_info = Some ''x:15 y:25 screen:0 window:1'', mouse_time = 40,
         window_name = None, window_time = 40, idle_check_time = 40,
         log_timestamp = ''2024-01-01T09:00:40'',
         active_window = None, typing_check_time = 40\<rparr>]"

text \<open>Two ticks, 15 seconds apart, that see the same window.\<close>

definition same_window_twice :: "event list" where
  "same_window_twice =
     [Iteration (editor_tick ''2024-01-01T09:00:10'' 10),
      Iteration (editor_tick ''2024-01-01T09:00:40'' 25)]"

section \<open>Properties of the string operations\<close>

lemmas lower_eval = lower_def lower_char_def char_of_def bit_Suc_0_iff

lemma py_in_sublist: "py_in sub s \<longleftrightarrow> sublist sub s"
  by (induction s) (auto simp: sublist_Cons_right)

lemma sublist_email_mail: "sublist ''email'' s \<Longrightarrow> sublist ''mail'' s"
proof -
  assume "sublist ''email'' s"
  then obtain ps ss where "s = ps @ ''email'' @ ss"
    by (auto simp: sublist_def)
  then have "s = (ps @ ''e'') @ ''mail'' @ ss"
    by simp
  then show ?thesis
    unfolding sublist_def by blast
qed

section \<open>Classification\<close>

lemma match_categories_find:
  "match_categories cats app_name =
     map_option fst (find (\<lambda>(name, keywords).
        \<exists>k \<in> set keywords. sublist (lower k) app_name) cats)"
  by (induction cats app_name rule: match_categories.induct)
     (auto simp: list_ex_iff py_in_sublist)

text \<open>
  C6. For every observation and configuration, \<open>categorize_activity\<close> returns the
  category the contract names: Idle for no observation; System when the lower-cased
  application name equals a lower-cased ignored application; otherwise the first
  category, in the order of the configuration, one of whose lower-cased keywords is a
  substring of the lower-cased application name; otherwise the first title heuristic
  that matches (mail, then document or .doc or .txt, then code or script or a
  source-file extension); otherwise Other. With the categories Coding: vscode and the
  application Code.exe with the title "main.py - VS Code" (whatever character \<open>d\<close>
  stands for the dash), no category matches the application name and the title
  heuristic yields Coding.
\<close>

theorem categorize_activity_classify:
  "categorize_activity cm observation = classify observation (get_config cm)
   \<and> (\<forall>d ign si p.
        match_categories [(''Coding'', [''vscode''])] (lower ''Code.exe'') = None
        \<and> title_heuristic (lower (''main.py '' @ [d] @ '' VS Code'')) = ''Coding''
        \<and> (List.member (map lower ign) ''code.exe'' \<or>
           categorize_activity
             \<lparr>config_path = p,
              config = \<lparr>ignored_apps = ign, categories = [(''Coding'', [''vscode''])],
                        sampling_interval_entry = si\<rparr>\<rparr>
             (Some \<lparr>w_app = ''Code.exe'', w_title = ''main.py '' @ [d] @ '' VS Code'',
                    w_pid = None\<rparr>) = ''Coding''))"
proof (intro conjI allI)
  show "categorize_activity cm observation = classify observation (get_config cm)"
  proof (cases observation)
    case None
    then show ?thesis by (simp add: categorize_activity_def classify_def)
  next
    case (Some wi)
    have mail: "(py_in ''email'' t \<or> py_in ''mail'' t) = sublist ''mail'' t" for t
      using sublist_email_mail [of t] by (auto simp: py_in_sublist)
    have ext: "list_ex (\<lambda>ext. py_in ext t)
        [''.py'', ''.js'', ''.html'', ''.css'', ''.java'', ''.go'', ''.c'', ''.cpp'']
        = (\<exists>ext \<in> set source_file_extensions. sublist ext t)" for t
      by (simp add: source_file_extensions_def py_in_sublist)
    have ign: "List.member (map lower (ignored_apps c)) a
        = (\<exists>x \<in> set (ignored_apps c). lower x = a)" for c :: config and a
      by auto
    show ?thesis
      unfolding Some categorize_activity_def classify_def title_heuristic_def Let_def
        option.case match_categories_find mail ext ign
      by (simp only: py_in_sublist split: option.splits prod.splits) auto
  qed
next
  show "match_categories [(''Coding'', [''vscode''])] (lower ''Code.exe'') = None"
    by (simp add: lower_eval)
next
  fix d
  show "title_heuristic (lower (''main.py '' @ [d] @ '' VS Code'')) = ''Coding''"
    unfolding title_heuristic_def py_in_sublist [symmetric]
    by (simp add: lower_eval)
next
  fix d ign si p
  have t: "py_in ''email'' (lower (''main.py '' @ [d] @ '' VS Code'')) = False"
      "py_in ''mail'' (lower (''main.py '' @ [d] @ '' VS Code'')) = False"
      "py_in ''document'' (lower (''main.py '' @ [d] @ '' VS Code'')) = False"
      "py_in ''.doc'' (lower (''main.py '' @ [d] @ '' VS Code'')) = False"
      "py_in ''.txt'' (lower (''main.py '' @ [d] @ '' VS Code'')) = False"
      "py_in ''code'' (lower (''main.py '' @ [d] @ '' VS Code'')) = True"
    by (simp_all add: lower_eval)
  have a: "lower ''Code.exe'' = ''code.exe''"
    by (simp add: lower_eval)
  have m: "match_categories [(''Coding'', [''vscode''])] ''code.exe'' = None"
    by (simp add: lower_eval)
  show "List.member (map lower ign) ''code.exe'' \<or>
     categorize_activity
       \<lparr>config_path = p,
        config = \<lparr>ignored_apps = ign, categories = [(''Coding'', [''vscode''])],
                  sampling_interval_entry = si\<rparr>\<rparr>
       (Some \<lparr>w_app = ''Code.exe'', w_title = ''main.py '' @ [d] @ '' VS Code'',
              w_pid = None\<rparr>) = ''Coding''"
  proof (cases "List.member (map lower ign) ''code.exe''")
    case True
    then show ?thesis by simp
  next
    case False
    then show ?thesis
      unfolding categorize_activity_def Let_def get_config_def
      by (simp only: window_info.select_convs config.select_convs
            config_manager.select_convs a m t option.case if_False if_True simp_thms)
  qed
qed

theorem categorize_activity_classify_witness:
  "categorize_activity \<lparr>config_path = ''/home/u/.activity_tracker'', config = DEFAULT_CONFIG\<rparr>
     (Some \<lparr>w_app = ''explorer.exe'', w_title = ''x'', w_pid = None\<rparr>) = ''System''
   \<and> classify (Some \<lparr>w_app = ''explorer.exe'', w_title = ''x'', w_pid = None\<rparr>)
       DEFAULT_CONFIG = ''System''"
proof -
  have "classify (Some \<lparr>w_app = ''explorer.exe'', w_title = ''x'', w_pid = None\<rparr>)
       DEFAULT_CONFIG = ''System''"
    by (simp add: classify_def DEFAULT_CONFIG_def lower_eval)
  then show ?thesis
    using categorize_activity_classify
      [of "\<lparr>config_path = ''/home/u/.activity_tracker'', config = DEFAULT_CONFIG\<rparr>"
          "Some \<lparr>w_app = ''explorer.exe'', w_title = ''x'', w_pid = None\<rparr>"]
    by (simp add: get_config_def)
qed

section \<open>Frame lemmas of the tracker's operations\<close>

lemma print_simps [simp]:
  "stdout (print m s) = stdout s @ [m]"
  "activities (print m s) = activities s"
  "current_activity (print m s) = current_activity s"
  "sampling_interval (print m s) = sampling_interval s"
  "is_idle (print m s) = is_idle s"
  "is_typing (print m s) = is_typing s"
  "keyboard_listener (print m s) = keyboard_listener s"
  "last_keypress_time (print m s) = last_keypress_time s"
  "last_activity_time (print m s) = last_activity_time s"
  "typing_inactivity_threshold (print m s) = typing_inactivity_threshold s"
  "idle_threshold (print m s) = idle_threshold s"
  "config_manager (print m s) = config_manager s"
  "today_date (print m s) = today_date s"
  "files (print m s) = files s"
  "current_mouse (print m s) = current_mouse s"
  "last_mouse_pos (print m s) = last_mouse_pos s"
  "last_window_title (print m s) = last_window_title s"
  by (simp_all add: print_def)

lemma observe_activity_frame:
  "activities (snd (observe_activity ts wi now s)) = activities s"
  "current_activity (snd (observe_activity ts wi now s)) = current_activity s"
  "sampling_interval (snd (observe_activity ts wi now s)) = sampling_interval s"
  "is_idle (snd (observe_activity ts wi now s)) = is_idle s"
  "typing_inactivity_threshold (snd (observe_activity ts wi now s)) = typing_inactivity_threshold s"
  "idle_threshold (snd (observe_activity ts wi now s)) = idle_threshold s"
  "config_manager (snd (observe_activity ts wi now s)) = config_manager s"
  "today_date (snd (observe_activity ts wi now s)) = today_date s"
  "files (snd (observe_activity ts wi now s)) = files s"
  "last_activity_time (snd (observe_activity ts wi now s)) = last_activity_time s"
  by (simp_all add: observe_activity_def check_typing_status_def Let_def split: option.split)

lemma save_activities_simps [simp]:
  "activities (save_activities s) = activities s"
  "current_activity (save_activities s) = current_activity s"
  "sampling_interval (save_activities s) = sampling_interval s"
  "is_idle (save_activities s) = is_idle s"
  "typing_inactivity_threshold (save_activities s) = typing_inactivity_threshold s"
  "idle_threshold (save_activities s) = idle_threshold s"
  "config_manager (save_activities s) = config_manager s"
  "today_date (save_activities s) = today_date s"
  "last_activity_time (save_activities s) = last_activity_time s"
  by (simp_all add: save_activities_def Let_def)

lemma on_key_press_frame [simp]:
  "activities (on_key_press t1 t2 s) = activities s"
  "current_activity (on_key_press t1 t2 s) = current_activity s"
  "sampling_interval (on_key_press t1 t2 s) = sampling_interval s"
  "typing_inactivity_threshold (on_key_press t1 t2 s) = typing_inactivity_threshold s"
  "idle_threshold (on_key_press t1 t2 s) = idle_threshold s"
  "files (on_key_press t1 t2 s) = files s"
  "config_manager (on_key_press t1 t2 s) = config_manager s"
  "today_date (on_key_press t1 t2 s) = today_date s"
  by (simp_all add: on_key_press_def Let_def)

lemma poll_mouse_frame [simp]:
  "activities (poll_mouse info now s) = activities s"
  "current_activity (poll_mouse info now s) = current_activity s"
  "sampling_interval (poll_mouse info now s) = sampling_interval s"
  "typing_inactivity_threshold (poll_mouse info now s) = typing_inactivity_threshold s"
  "idle_threshold (poll_mouse info now s) = idle_threshold s"
  "files (poll_mouse info now s) = files s"
  "config_manager (poll_mouse info now s) = config_manager s"
  "today_date (poll_mouse info now s) = today_date s"
  by (simp_all add: poll_mouse_def Let_def split: option.split)

lemma poll_window_frame [simp]:
  "activities (poll_window name now s) = activities s"
  "current_activity (poll_window name now s) = current_activity s"
  "sampling_interval (poll_window name now s) = sampling_interval s"
  "typing_inactivity_threshold (poll_window name now s) = typing_inactivity_threshold s"
  "idle_threshold (poll_window name now s) = idle_threshold s"
  "files (poll_window name now s) = files s"
  "config_manager (poll_window name now s) = config_manager s"
  "today_date (poll_window name now s) = today_date s"
  "current_mouse (poll_window name now s) = current_mouse s"
  by (simp_all add: poll_window_def Let_def split: option.split)

lemma check_idle_status_frame [simp]:
  "activities (snd (check_idle_status now s)) = activities s"
  "current_activity (snd (check_idle_status now s)) = current_activity s"
  "sampling_interval (snd (check_idle_status now s)) = sampling_interval s"
  "typing_inactivity_threshold (snd (check_idle_status now s)) = typing_inactivity_threshold s"
  "idle_threshold (snd (check_idle_status now s)) = idle_threshold s"
  "files (snd (check_idle_status now s)) = files s"
  "config_manager (snd (check_idle_status now s)) = config_manager s"
  "today_date (snd (check_idle_status now s)) = today_date s"
  by (simp_all add: check_idle_status_def Let_def)

lemma log_current_activity_frame [simp]:
  "sampling_interval (log_current_activity ts wi now s) = sampling_interval s"
  "typing_inactivity_threshold (log_current_activity ts wi now s) = typing_inactivity_threshold s"
  "idle_threshold (log_current_activity ts wi now s) = idle_threshold s"
  "is_idle (log_current_activity ts wi now s) = is_idle s"
  "config_manager (log_current_activity ts wi now s) = config_manager s"
  "today_date (log_current_activity ts wi now s) = today_date s"
  "last_activity_time (log_current_activity ts wi now s) = last_activity_time s"
  by (cases "observe_activity ts wi now s";
      use observe_activity_frame [of ts wi now s] in
        \<open>simp add: log_current_activity_def Let_def split: option.split\<close>)+

lemma tracking_iteration_cases:
  "tracking_iteration tk s =
     (case before_log tk s of
        None \<Rightarrow> print ErrorDuringTracking
          (poll_window (window_name tk) (window_time tk)
            (poll_mouse (mouse_info tk) (mouse_time tk) s))
      | Some s4 \<Rightarrow> log_current_activity (log_timestamp tk) (active_window tk)
          (typing_check_time tk) s4)"
  by (simp add: tracking_iteration_def before_log_def before_idle_check_def Let_def
        split: option.split)

lemma before_log_frame:
  "before_log tk s = Some s4 \<Longrightarrow>
     activities s4 = activities s \<and> current_activity s4 = current_activity s
     \<and> sampling_interval s4 = sampling_interval s
     \<and> typing_inactivity_threshold s4 = typing_inactivity_threshold s
     \<and> idle_threshold s4 = idle_threshold s
     \<and> files s4 = files s \<and> config_manager s4 = config_manager s
     \<and> today_date s4 = today_date s"
  by (auto simp: before_log_def before_idle_check_def Let_def split: option.splits)

lemma step_thresholds:
  "typing_inactivity_threshold (step e s) = typing_inactivity_threshold s
   \<and> idle_threshold (step e s) = idle_threshold s
   \<and> sampling_interval (step e s) = sampling_interval s"
proof (cases e)
  case (KeyPress t1 t2)
  then show ?thesis by simp
next
  case (Iteration tk)
  show ?thesis
  proof (cases "before_log tk s")
    case None
    then show ?thesis by (simp add: Iteration tracking_iteration_cases)
  next
    case (Some s4)
    then show ?thesis
      using before_log_frame [OF Some] by (simp add: Iteration tracking_iteration_cases)
  qed
qed

lemma run_thresholds:
  "typing_inactivity_threshold (run evs s) = typing_inactivity_threshold s
   \<and> idle_threshold (run evs s) = idle_threshold s
   \<and> sampling_interval (run evs s) = sampling_interval s"
  by (induction evs arbitrary: s) (simp_all add: step_thresholds del: step.simps)

lemma init_thresholds:
  "init cm date t1 t2 started fs = Inr s0 \<Longrightarrow>
     typing_inactivity_threshold s0 = 2 \<and> idle_threshold s0 = 30
     \<and> sampling_interval s0 = get_sampling_interval cm \<and> current_activity s0 = None
     \<and> \<not> is_idle s0 \<and> \<not> is_typing s0 \<and> keyboard_listener s0 = started"
  by (auto simp: init_def load_today_activities_def start_keyboard_monitoring_def
        print_def Let_def split: option.splits sum.splits if_splits)

section \<open>The two outcomes of a tick\<close>

lemma log_append:
  "\<not> merges ts wi now s \<Longrightarrow>
     activities (log_current_activity ts wi now s)
       = activities s @ [fst (observe_activity ts wi now s)]
     \<and> current_activity (log_current_activity ts wi now s)
       = Some (fst (observe_activity ts wi now s))"
  by (cases "observe_activity ts wi now s")
     (use observe_activity_frame [of ts wi now s] in
      \<open>auto simp: log_current_activity_def merges_def Let_def split: option.splits\<close>)

lemma log_merge:
  "merges ts wi now s \<Longrightarrow>
     activities (log_current_activity ts wi now s)
       = butlast (activities s) @
           [(case a_is_typing (fst (observe_activity ts wi now s)) of
               None \<Rightarrow> last (activities s)
                 \<lparr>a_duration := a_duration (last (activities s)) + sampling_interval s\<rparr>
             | Some b \<Rightarrow> last (activities s)
                 \<lparr>a_duration := a_duration (last (activities s)) + sampling_interval s,
                  a_is_typing := Some b,
                  a_title := a_title (fst (observe_activity ts wi now s))\<rparr>)]
     \<and> current_activity (log_current_activity ts wi now s)
       = Some (last (activities (log_current_activity ts wi now s)))"
proof -
  assume m: "merges ts wi now s"
  obtain act s1 where o: "observe_activity ts wi now s = (act, s1)"
    by (cases "observe_activity ts wi now s")
  have f: "activities s1 = activities s" "current_activity s1 = current_activity s"
      "sampling_interval s1 = sampling_interval s" "is_idle s1 = is_idle s"
    using observe_activity_frame [of ts wi now s] o by simp_all
  from m obtain cur where c: "current_activity s = Some cur" "is_same_activity cur act"
      "\<not> is_idle s" "activities s \<noteq> []"
    by (auto simp: merges_def o split: option.splits)
  have upd: "xs \<noteq> [] \<Longrightarrow> xs[length xs - 1 := v] = butlast xs @ [v]" for xs :: "activity list" and v
    by (induction xs rule: rev_induct) (simp_all add: list_update_append)
  show ?thesis
    using c upd [OF c(4)]
    by (simp add: log_current_activity_def o f Let_def split: option.splits)
qed

lemma log_merge_files:
  "merges ts wi now s \<Longrightarrow> files (log_current_activity ts wi now s) = files s"
  by (cases "observe_activity ts wi now s")
     (use observe_activity_frame [of ts wi now s] in
      \<open>auto simp: log_current_activity_def merges_def Let_def split: option.splits\<close>)

lemma log_append_files:
  "\<not> merges ts wi now s \<Longrightarrow>
     files (log_current_activity ts wi now s)
       (get_log_path (config_manager s) (today_date s))
       = Some (json_dumps (activities (log_current_activity ts wi now s)))"
  by (cases "observe_activity ts wi now s")
     (use observe_activity_frame [of ts wi now s] in
      \<open>auto simp: log_current_activity_def merges_def save_activities_def Let_def
         split: option.splits\<close>)

lemma observe_idle:
  "is_idle s \<or> wi = None \<Longrightarrow>
     fst (observe_activity ts wi now s) = idle_activity ts (sampling_interval s)"
  by (auto simp: observe_activity_def Let_def)


section \<open>The current activity is the last record\<close>

text \<open>
  In every state a run reaches from a newly built tracker, \<open>current_activity\<close> is unset
  or is the last element of \<open>activities\<close>: the value the model keeps for the attribute
  is the dictionary the attribute refers to.
\<close>

lemma log_current_is_last:
  "activities (log_current_activity ts wi now s) \<noteq> []
   \<and> current_activity (log_current_activity ts wi now s)
       = Some (last (activities (log_current_activity ts wi now s)))"
proof (cases "merges ts wi now s")
  case True
  from log_merge [OF True] show ?thesis by simp
next
  case False
  from log_append [OF False] show ?thesis by simp
qed

lemma step_current_is_last:
  assumes "current_activity s = None
    \<or> (activities s \<noteq> [] \<and> current_activity s = Some (last (activities s)))"
  shows "current_activity (step e s) = None
    \<or> (activities (step e s) \<noteq> []
       \<and> current_activity (step e s) = Some (last (activities (step e s))))"
proof (cases e)
  case (KeyPress t1 t2)
  with assms show ?thesis by simp
next
  case (Iteration tk)
  show ?thesis
  proof (cases "before_log tk s")
    case None
    with assms show ?thesis by (simp add: Iteration tracking_iteration_cases)
  next
    case (Some s4)
    then show ?thesis
      using log_current_is_last [of "log_timestamp tk" "active_window tk"
          "typing_check_time tk" s4]
      by (simp add: Iteration tracking_iteration_cases)
  qed
qed

lemma run_current_is_last:
  assumes "init cm date t1 t2 started fs = Inr s0"
  shows "current_activity (run evs s0) = None
    \<or> (activities (run evs s0) \<noteq> []
       \<and> current_activity (run evs s0) = Some (last (activities (run evs s0))))"
proof -
  have "current_activity s = None
      \<or> (activities s \<noteq> [] \<and> current_activity s = Some (last (activities s))) \<Longrightarrow>
    current_activity (run evs s) = None
      \<or> (activities (run evs s) \<noteq> []
         \<and> current_activity (run evs s) = Some (last (activities (run evs s))))" for s
  proof (induction evs arbitrary: s)
    case Nil
    then show ?case by simp
  next
    case (Cons e evs)
    from Cons.IH [OF step_current_is_last [OF Cons.prems, of e]] show ?case by simp
  qed
  moreover have "current_activity s0 = None"
    using init_thresholds [OF assms] by simp
  ultimately show ?thesis by blast
qed

section \<open>The example runs\<close>

lemma init_start_state:
  "init example_config_manager ''2024-01-01'' 0 0 True Map.empty = Inr start_state"
  by (simp add: init_def load_today_activities_def start_keyboard_monitoring_def print_def
        start_state_def get_sampling_interval_def example_config_manager_def
        DEFAULT_CONFIG_def Let_def)

lemma categorize_idle_window:
  "categorize_activity example_config_manager
     (Some \<lparr>w_app = ''Idle'', w_title = ''User inactive'', w_pid = None\<rparr>) = ''Other''"
  by (simp add: categorize_activity_def example_config_manager_def DEFAULT_CONFIG_def
        get_config_def lower_eval Let_def)

lemma categorize_editor:
  "categorize_activity example_config_manager
     (Some \<lparr>w_app = ''Editor'', w_title = ''file.py'', w_pid = Some 4242\<rparr>) = ''Coding''"
  by (simp add: categorize_activity_def example_config_manager_def DEFAULT_CONFIG_def
        get_config_def lower_eval Let_def)

lemma categorize_editor_a:
  "categorize_activity example_config_manager
     (Some \<lparr>w_app = ''Editor'', w_title = ''a.py'', w_pid = Some 4242\<rparr>) = ''Coding''"
  by (simp add: categorize_activity_def example_config_manager_def DEFAULT_CONFIG_def
        get_config_def lower_eval Let_def)

lemmas tick_eval =
  tracking_iteration_def poll_mouse_def poll_window_def check_idle_status_def
  log_current_activity_def observe_activity_def check_typing_status_def
  save_activities_def print_def on_key_press_def is_same_activity_def idle_activity_def
  logs_window_def before_log_def before_idle_check_def Let_def


lemma scenario_a_run:
  "activities (run scenario_a start_state)
     = [\<lparr>a_timestamp = ''2024-01-01T09:00:10'', a_app = ''Editor'',
         a_title = ''file.py (typing)'', a_category = ''Coding'', a_duration = 90,
         a_is_typing = Some True\<rparr>]"
  by (simp add: scenario_a_def editor_tick_def start_state_def tick_eval categorize_editor)

lemma scenario_b_run:
  "activities (run scenario_b start_state)
     = [\<lparr>a_timestamp = ''2024-01-01T09:00:10'', a_app = ''Editor'', a_title = ''a.py'',
         a_category = ''Coding'', a_duration = 30, a_is_typing = Some False\<rparr>,
        \<lparr>a_timestamp = ''2024-01-01T09:00:40'', a_app = ''Idle'',
         a_title = ''User inactive'', a_category = ''Idle'', a_duration = 30,
         a_is_typing = None\<rparr>]"
  by (simp add: scenario_b_def start_state_def tick_eval categorize_editor_a)

section \<open>Typing status\<close>

text \<open>
  C8. Without a keyboard listener \<open>_check_typing_status\<close> returns false at once and
  changes nothing. A listener that fails to start leaves the tracker without one, and
  the construction of the tracker fails with a started listener exactly when it fails
  without. With a listener and the threshold of 2 seconds, which \<open>__init__\<close> sets and
  no run changes, after a key press at time \<open>t\<close> a query at \<open>now\<close> with
  \<open>now - t \<le> 2\<close> returns true and leaves the state as it is, so that every such query
  returns true; a query with \<open>now - t > 2\<close> returns false and clears \<open>is_typing\<close> in
  that very query; with \<open>is_typing\<close> cleared a query returns false.
\<close>

theorem check_typing_status_expiry:
  "(\<not> keyboard_listener s \<longrightarrow> check_typing_status now s = (False, s))
   \<and> \<not> keyboard_listener (start_keyboard_monitoring False s)
   \<and> (\<forall>cm date t1 t2 fs e.
         (init cm date t1 t2 False fs = Inl e) = (init cm date t1 t2 True fs = Inl e))
   \<and> (\<forall>cm date t1 t2 started fs s0 evs.
         init cm date t1 t2 started fs = Inr s0 \<longrightarrow>
           typing_inactivity_threshold (run evs s0) = 2)
   \<and> (keyboard_listener s \<and> \<not> is_typing s \<longrightarrow> check_typing_status now s = (False, s))
   \<and> (keyboard_listener s \<and> typing_inactivity_threshold s = 2 \<longrightarrow>
        (let s1 = on_key_press t t' s
         in (now - t \<le> 2 \<longrightarrow> check_typing_status now s1 = (True, s1))
          \<and> (now - t > 2 \<longrightarrow>
               check_typing_status now s1
                 = (False, print (UserStoppedTyping (now - t)) (s1\<lparr>is_typing := False\<rparr>)))))"
proof -
  have fatal: "(init cm date t1 t2 False fs = Inl e) = (init cm date t1 t2 True fs = Inl e)"
    for cm date t1 t2 fs e
    by (simp add: init_def Let_def split: sum.splits)
  have thr: "typing_inactivity_threshold (run evs s0) = 2"
    if "init cm date t1 t2 started fs = Inr s0" for cm date t1 t2 started fs s0 evs
    using init_thresholds [OF that] by (simp add: run_thresholds)
  have q: "(\<not> keyboard_listener s \<longrightarrow> check_typing_status now s = (False, s))
   \<and> \<not> keyboard_listener (start_keyboard_monitoring False s)
   \<and> (keyboard_listener s \<and> \<not> is_typing s \<longrightarrow> check_typing_status now s = (False, s))
   \<and> (keyboard_listener s \<and> typing_inactivity_threshold s = 2 \<longrightarrow>
        (let s1 = on_key_press t t' s
         in (now - t \<le> 2 \<longrightarrow> check_typing_status now s1 = (True, s1))
          \<and> (now - t > 2 \<longrightarrow>
               check_typing_status now s1
                 = (False, print (UserStoppedTyping (now - t)) (s1\<lparr>is_typing := False\<rparr>)))))"
    by (auto simp: check_typing_status_def start_keyboard_monitoring_def on_key_press_def
          Let_def)
  from fatal thr q show ?thesis
    by blast
qed

theorem check_typing_status_expiry_witness:
  "keyboard_listener start_state \<and> typing_inactivity_threshold start_state = 2
   \<and> check_typing_status 12 (on_key_press 10 10 start_state)
       = (True, on_key_press 10 10 start_state)
   \<and> fst (check_typing_status 13 (on_key_press 10 10 start_state)) = False
   \<and> \<not> is_typing (snd (check_typing_status 13 (on_key_press 10 10 start_state)))
   \<and> check_typing_status 11 (start_state\<lparr>keyboard_listener := False\<rparr>)
       = (False, start_state\<lparr>keyboard_listener := False\<rparr>)
   \<and> typing_inactivity_threshold (run scenario_a start_state) = 2"
  using check_typing_status_expiry [of start_state 12 10 10]
    check_typing_status_expiry [of start_state 13 10 10]
    check_typing_status_expiry [of "start_state\<lparr>keyboard_listener := False\<rparr>" 11 10 10]
    init_start_state
  by (simp add: start_state_def Let_def)

section \<open>Idle detection\<close>

text \<open>
  C7. After the idle check of a tick the tracker is idle exactly when it was idle
  before or \<open>now - last_activity_time\<close> has reached the idle threshold, which
  \<open>__init__\<close> sets to 30 seconds and no operation changes; the transition is printed
  when it happens and not when the tracker is idle already. A key press, a changed
  pointer position and a changed window title each set \<open>last_activity_time\<close> to their
  reading of the clock and leave the tracker active, printing the way back from idle
  only when the tracker was idle. No other operation of a tick makes the tracker idle.
\<close>

theorem idle_transitions:
  "(is_idle (snd (check_idle_status now s))
      \<longleftrightarrow> is_idle s \<or> now - last_activity_time s \<ge> idle_threshold s)
   \<and> stdout (snd (check_idle_status now s))
       = stdout s @ (if \<not> is_idle s \<and> now - last_activity_time s \<ge> idle_threshold s
                     then [UserNowIdle (now - last_activity_time s)] else [])
   \<and> (\<forall>cm date t1 t2 started fs s0 evs.
         init cm date t1 t2 started fs = Inr s0 \<longrightarrow> idle_threshold (run evs s0) = 30)
   \<and> last_activity_time (on_key_press t1 t2 s) = t2
   \<and> \<not> is_idle (on_key_press t1 t2 s)
   \<and> stdout (on_key_press t1 t2 s)
       = stdout s @ (if is_typing s then [] else [UserStartedTyping])
           @ (if is_idle s then [NoLongerIdleKeyboard] else [])
   \<and> (last_mouse_pos s = Some old \<and> cur \<noteq> old \<longrightarrow>
        last_activity_time (poll_mouse (Some cur) now s) = now
        \<and> \<not> is_idle (poll_mouse (Some cur) now s)
        \<and> stdout (poll_mouse (Some cur) now s)
            = stdout s @ [MouseMovement cur old]
                @ (if is_idle s then [NoLongerIdleMouse] else []))
   \<and> (last_window_title s = Some old \<and> cur \<noteq> old \<longrightarrow>
        last_activity_time (poll_window (Some cur) now s) = now
        \<and> \<not> is_idle (poll_window (Some cur) now s)
        \<and> stdout (poll_window (Some cur) now s)
            = stdout s @ [WindowChanged]
                @ (if is_idle s then [NoLongerIdleWindow] else []))
   \<and> (is_idle (poll_mouse info now s) \<longrightarrow> is_idle s)
   \<and> (is_idle (poll_window info now s) \<longrightarrow> is_idle s)
   \<and> is_idle (log_current_activity ts wi now s) = is_idle s"
proof -
  have thr: "idle_threshold (run evs s0) = 30"
    if "init cm date t1 t2 started fs = Inr s0" for cm date t1 t2 started fs s0 evs
  proof -
    from that have "idle_threshold s0 = 30"
      by (auto simp: init_def load_today_activities_def start_keyboard_monitoring_def
            print_def Let_def split: option.splits sum.splits if_splits)
    then show ?thesis by (simp add: run_thresholds)
  qed
  have chk: "(is_idle (snd (check_idle_status now s))
      \<longleftrightarrow> is_idle s \<or> now - last_activity_time s \<ge> idle_threshold s)
   \<and> stdout (snd (check_idle_status now s))
       = stdout s @ (if \<not> is_idle s \<and> now - last_activity_time s \<ge> idle_threshold s
                     then [UserNowIdle (now - last_activity_time s)] else [])"
    by (simp add: check_idle_status_def Let_def)
  have key: "last_activity_time (on_key_press t1 t2 s) = t2
   \<and> \<not> is_idle (on_key_press t1 t2 s)
   \<and> stdout (on_key_press t1 t2 s)
       = stdout s @ (if is_typing s then [] else [UserStartedTyping])
           @ (if is_idle s then [NoLongerIdleKeyboard] else [])"
    by (simp add: on_key_press_def Let_def)
  have mouse: "last_mouse_pos s = Some old \<and> cur \<noteq> old \<longrightarrow>
        last_activity_time (poll_mouse (Some cur) now s) = now
        \<and> \<not> is_idle (poll_mouse (Some cur) now s)
        \<and> stdout (poll_mouse (Some cur) now s)
            = stdout s @ [MouseMovement cur old]
                @ (if is_idle s then [NoLongerIdleMouse] else [])"
    by (simp add: poll_mouse_def Let_def)
  have window: "last_window_title s = Some old \<and> cur \<noteq> old \<longrightarrow>
        last_activity_time (poll_window (Some cur) now s) = now
        \<and> \<not> is_idle (poll_window (Some cur) now s)
        \<and> stdout (poll_window (Some cur) now s)
            = stdout s @ [WindowChanged]
                @ (if is_idle s then [NoLongerIdleWindow] else [])"
    by (simp add: poll_window_def Let_def)
  have only: "(is_idle (poll_mouse info now s) \<longrightarrow> is_idle s)
      \<and> (is_idle (poll_window info now s) \<longrightarrow> is_idle s)"
    by (simp add: poll_mouse_def poll_window_def Let_def split: option.split)
  show ?thesis
    using chk key mouse window only thr by (simp only: log_current_activity_frame) blast
qed

theorem idle_transitions_witness:
  "\<not> is_idle start_state \<and> idle_threshold start_state = 30
   \<and> is_idle (snd (check_idle_status 30 start_state))
   \<and> \<not> is_idle (snd (check_idle_status 29 start_state))
   \<and> stdout (snd (check_idle_status 30 start_state))
       = [KeyboardMonitoringStarted, UserNowIdle 30]
   \<and> stdout (snd (check_idle_status 60 (snd (check_idle_status 30 start_state))))
       = [KeyboardMonitoringStarted, UserNowIdle 30]
   \<and> \<not> is_idle (on_key_press 61 61 (snd (check_idle_status 30 start_state)))
   \<and> idle_threshold (run scenario_a start_state) = 30"
  using idle_transitions [of 30 start_state]
    idle_transitions [of 29 start_state]
    idle_transitions [of 60 "snd (check_idle_status 30 start_state)" 61 61]
    idle_transitions [of 30 start_state 61 61, THEN conjunct2, THEN conjunct2, THEN conjunct1,
      rule_format, OF init_start_state, of scenario_a]
  by (simp add: start_state_def)

section \<open>The timeline's frame\<close>

lemma log_butlast:
  "prefix (butlast (activities s)) (butlast (activities (log_current_activity ts wi now s)))"
proof (cases "merges ts wi now s")
  case True
  then show ?thesis using log_merge [OF True] by (simp add: butlast_append)
next
  case False
  then show ?thesis using log_append [OF False] by (simp add: butlast_append prefix_def butlast_conv_take)
      (metis append_take_drop_id)
qed

lemma step_butlast:
  "prefix (butlast (activities s)) (butlast (activities (step e s)))"
proof (cases e)
  case (KeyPress t1 t2)
  then show ?thesis by simp
next
  case (Iteration tk)
  show ?thesis
  proof (cases "before_log tk s")
    case None
    then show ?thesis by (simp add: Iteration tracking_iteration_cases)
  next
    case (Some s4)
    then show ?thesis
      using before_log_frame [OF Some] log_butlast [of s4]
      by (simp add: Iteration tracking_iteration_cases)
  qed
qed

lemma run_butlast:
  "prefix (butlast (activities s)) (butlast (activities (run evs s)))"
proof (induction evs arbitrary: s)
  case Nil
  then show ?case by simp
next
  case (Cons e evs)
  have "prefix (butlast (activities s)) (butlast (activities (step e s)))"
    by (rule step_butlast)
  also have "prefix \<dots> (butlast (activities (run evs (step e s))))"
    by (rule Cons.IH)
  finally show ?case by simp
qed

text \<open>
  C9. A tick either appends one record to the timeline or replaces its last record by
  one with the same timestamp, application and category and the duration increased by
  the sampling interval; over any run, the records before the last one stay where
  they are and as they are.
\<close>

theorem timeline_frame:
  "(let acts = activities s; acts' = activities (log_current_activity ts wi now s)
    in (\<exists>a. acts' = acts @ [a])
       \<or> (acts \<noteq> [] \<and> (\<exists>l. acts' = butlast acts @ [l]
             \<and> a_timestamp l = a_timestamp (last acts) \<and> a_app l = a_app (last acts)
             \<and> a_category l = a_category (last acts)
             \<and> a_duration l = a_duration (last acts) + sampling_interval s)))
   \<and> prefix (butlast (activities s)) (activities (run evs s))"
proof
  show "let acts = activities s; acts' = activities (log_current_activity ts wi now s)
    in (\<exists>a. acts' = acts @ [a])
       \<or> (acts \<noteq> [] \<and> (\<exists>l. acts' = butlast acts @ [l]
             \<and> a_timestamp l = a_timestamp (last acts) \<and> a_app l = a_app (last acts)
             \<and> a_category l = a_category (last acts)
             \<and> a_duration l = a_duration (last acts) + sampling_interval s))"
  proof (cases "merges ts wi now s")
    case True
    then have "activities s \<noteq> []" by (simp add: merges_def)
    then show ?thesis
      using log_merge [OF True] by (auto simp: Let_def split: option.splits)
  next
    case False
    then show ?thesis using log_append [OF False] by (simp add: Let_def)
  qed
next
  have "prefix (butlast (activities (run evs s))) (activities (run evs s))"
    by (simp add: prefix_def butlast_conv_take) (metis append_take_drop_id)
  with run_butlast [of s evs] show "prefix (butlast (activities s)) (activities (run evs s))"
    by (rule prefix_order.trans)
qed

theorem timeline_frame_witness:
  "prefix
     [\<lparr>a_timestamp = ''2024-01-01T09:00:10'', a_app = ''Editor'', a_title = ''a.py'',
       a_category = ''Coding'', a_duration = 30, a_is_typing = Some False\<rparr>]
     (activities (run scenario_a (run scenario_b start_state)))"
  using timeline_frame [of "run scenario_b start_state" "''T''" None 0 scenario_a]
  by (simp add: scenario_b_run)

section \<open>The merge key\<close>

text \<open>
  C3, as the claim states it, fails: a record made for an idle tick is extended by a
  tick that sees a window whose application is Idle and whose title is User inactive,
  and the record of such a window is extended by a tick for which the window probe
  returns nothing.
\<close>

theorem idle_span_extended_by_window:
  "activities (log_current_activity ''T2''
       (Some \<lparr>w_app = ''Idle'', w_title = ''User inactive'', w_pid = None\<rparr>) 31
       (log_current_activity ''T1'' None 1 start_state))
     = [\<lparr>a_timestamp = ''T1'', a_app = ''Idle'', a_title = ''User inactive'',
         a_category = ''Idle'', a_duration = 60, a_is_typing = Some False\<rparr>]
   \<and> activities (log_current_activity ''T2'' None 31
       (log_current_activity ''T1''
          (Some \<lparr>w_app = ''Idle'', w_title = ''User inactive'', w_pid = None\<rparr>) 1 start_state))
     = [\<lparr>a_timestamp = ''T1'', a_app = ''Idle'', a_title = ''User inactive'',
         a_category = ''Other'', a_duration = 60, a_is_typing = Some False\<rparr>]"
  by (simp add: log_current_activity_def observe_activity_def check_typing_status_def
        save_activities_def print_def start_state_def idle_activity_def is_same_activity_def
        categorize_idle_window Let_def)

text \<open>
  C3, amended. A tick taken while the tracker is idle appends the idle record. A tick
  taken while it is not idle extends the last record, by one sampling interval, when
  the timeline is not empty and the current activity has the application and, up to
  the typing marker, the title of the activity of the tick, whatever the categories
  of the two; otherwise it appends the activity of the tick.
\<close>

theorem merge_key:
  "(is_idle s \<longrightarrow>
      activities (log_current_activity ts wi now s)
        = activities s @ [idle_activity ts (sampling_interval s)])
   \<and> (\<not> is_idle s \<and> activities s \<noteq> [] \<and>
       (\<exists>c. current_activity s = Some c \<and> a_app c = a_app (fst (observe_activity ts wi now s))
          \<and> py_replace '' (typing)'' '''' (a_title c)
              = py_replace '' (typing)'' '''' (a_title (fst (observe_activity ts wi now s))))
      \<longrightarrow> length (activities (log_current_activity ts wi now s)) = length (activities s)
        \<and> a_duration (last (activities (log_current_activity ts wi now s)))
            = a_duration (last (activities s)) + sampling_interval s)
   \<and> (\<not> is_idle s \<and>
       (activities s = [] \<or>
        (\<forall>c. current_activity s = Some c \<longrightarrow>
           a_app c \<noteq> a_app (fst (observe_activity ts wi now s))
           \<or> py_replace '' (typing)'' '''' (a_title c)
               \<noteq> py_replace '' (typing)'' '''' (a_title (fst (observe_activity ts wi now s)))))
      \<longrightarrow> activities (log_current_activity ts wi now s)
            = activities s @ [fst (observe_activity ts wi now s)])"
proof (intro conjI impI)
  assume "is_idle s"
  then have "\<not> merges ts wi now s" by (simp add: merges_def)
  from log_append [OF this] \<open>is_idle s\<close>
  show "activities (log_current_activity ts wi now s)
        = activities s @ [idle_activity ts (sampling_interval s)]"
    by (simp add: observe_idle)
next
  assume a: "\<not> is_idle s \<and> activities s \<noteq> [] \<and>
       (\<exists>c. current_activity s = Some c \<and> a_app c = a_app (fst (observe_activity ts wi now s))
          \<and> py_replace '' (typing)'' '''' (a_title c)
              = py_replace '' (typing)'' '''' (a_title (fst (observe_activity ts wi now s))))"
  then have m: "merges ts wi now s"
    by (auto simp: merges_def is_same_activity_def)
  show "length (activities (log_current_activity ts wi now s)) = length (activities s)"
    using log_merge [OF m] a by simp
  show "a_duration (last (activities (log_current_activity ts wi now s)))
            = a_duration (last (activities s)) + sampling_interval s"
    using log_merge [OF m] by (simp split: option.split)
next
  assume a: "\<not> is_idle s \<and>
       (activities s = [] \<or>
        (\<forall>c. current_activity s = Some c \<longrightarrow>
           a_app c \<noteq> a_app (fst (observe_activity ts wi now s))
           \<or> py_replace '' (typing)'' '''' (a_title c)
               \<noteq> py_replace '' (typing)'' '''' (a_title (fst (observe_activity ts wi now s)))))"
  then have "\<not> merges ts wi now s"
    by (auto simp: merges_def is_same_activity_def split: option.splits)
  from log_append [OF this]
  show "activities (log_current_activity ts wi now s)
            = activities s @ [fst (observe_activity ts wi now s)]"
    by simp
qed

theorem merge_key_witness:
  "is_idle (start_state\<lparr>is_idle := True\<rparr>)
   \<and> activities (log_current_activity ''T1'' None 40 (start_state\<lparr>is_idle := True\<rparr>))
       = [idle_activity ''T1'' 30]"
  using merge_key [of "start_state\<lparr>is_idle := True\<rparr>" "''T1''" None 40]
  by (simp add: start_state_def)

section \<open>Idle synthesis\<close>



section \<open>Spans\<close>














section \<open>Persistence after a tick\<close>

text \<open>
  C2. The tick that extends the last record returns before the timeline is saved: after
  two ticks that see the same window the timeline in memory holds a record of 60
  seconds and the file of the day still holds the text written by the first tick,
  with 30 seconds.
\<close>

theorem merge_tick_not_persisted:
  "activities (run same_window_twice start_state)
     = [\<lparr>a_timestamp = ''2024-01-01T09:00:10'', a_app = ''Editor'', a_title = ''file.py'',
         a_category = ''Coding'', a_duration = 60, a_is_typing = Some False\<rparr>]
   \<and> files (run same_window_twice start_state)
       ''/home/user/.activity_tracker/activity_2024-01-01.json''
     = Some (json_dumps
         [\<lparr>a_timestamp = ''2024-01-01T09:00:10'', a_app = ''Editor'', a_title = ''file.py'',
           a_category = ''Coding'', a_duration = 30, a_is_typing = Some False\<rparr>])
   \<and> files (run same_window_twice start_state)
       (get_log_path (config_manager (run same_window_twice start_state))
          (today_date (run same_window_twice start_state)))
     \<noteq> Some (json_dumps (activities (run same_window_twice start_state)))"
proof -
  have log_path: "get_log_path example_config_manager ''2024-01-01''
      = ''/home/user/.activity_tracker/activity_2024-01-01.json''"
    by (simp add: get_log_path_def example_config_manager_def)
  have r: "activities (run same_window_twice start_state)
     = [\<lparr>a_timestamp = ''2024-01-01T09:00:10'', a_app = ''Editor'', a_title = ''file.py'',
         a_category = ''Coding'', a_duration = 60, a_is_typing = Some False\<rparr>]"
    by (simp add: same_window_twice_def editor_tick_def start_state_def tick_eval
          categorize_editor)
  have f: "files (run same_window_twice start_state)
       ''/home/user/.activity_tracker/activity_2024-01-01.json''
     = Some (json_dumps
         [\<lparr>a_timestamp = ''2024-01-01T09:00:10'', a_app = ''Editor'', a_title = ''file.py'',
           a_category = ''Coding'', a_duration = 30, a_is_typing = Some False\<rparr>])"
    by (simp add: same_window_twice_def editor_tick_def start_state_def tick_eval
          categorize_editor log_path)
  have p: "get_log_path (config_manager (run same_window_twice start_state))
          (today_date (run same_window_twice start_state))
      = ''/home/user/.activity_tracker/activity_2024-01-01.json''"
    by (simp add: same_window_twice_def editor_tick_def start_state_def tick_eval
          categorize_editor log_path)
  have d30: "show_int 30 = ''30''" and d60: "show_int 60 = ''60''"
    by (simp_all add: show_int_def show_nat.simps char_of_def bit_Suc_0_iff)
  have ne: "json_dumps
         [\<lparr>a_timestamp = ''2024-01-01T09:00:10'', a_app = ''Editor'', a_title = ''file.py'',
           a_category = ''Coding'', a_duration = 30, a_is_typing = Some False\<rparr>]
      \<noteq> json_dumps
         [\<lparr>a_timestamp = ''2024-01-01T09:00:10'', a_app = ''Editor'', a_title = ''file.py'',
           a_category = ''Coding'', a_duration = 60, a_is_typing = Some False\<rparr>]"
    by (simp add: json_dumps_def json_activity_def json_member_def items_def d30 d60)
  show ?thesis
    using ne by (simp only: r f p) simp
qed

section \<open>Reading back a dumped timeline\<close>

subsection \<open>Strings\<close>






subsection \<open>Integers\<close>













subsection \<open>Members, activities and the timeline\<close>
















section \<open>The round trip through the file of the day\<close>



section \<open>Loading the file of the day\<close>




end
